theory Spec2Isabelle
  imports Complex_Main
begin

section \<open>Texts, errors and the library interface\<close>

text \<open>
  A Python \<open>str\<close> is a sequence of Unicode code points and \<open>len\<close> counts code points, so a
  text is a list of code points (natural numbers), not a list of bytes. The ASCII literals
  of the source are written as Isabelle strings and converted by \<open>lit\<close>.
\<close>

type_synonym pystr = "nat list"

definition lit :: "string \<Rightarrow> pystr" where
  "lit s = map of_char s"

text \<open>
  Exceptions are values. \<open>NotFittedError\<close> and \<open>ValueError\<close> are the two classes the
  vectorizer raises; \<open>Exception\<close> stands for any other exception, with its message.
\<close>

datatype py_error = NotFittedError | ValueError | Exception string

text \<open>
  The regular expressions compiled in \<open>data_preprocessor.py\<close>: the URL pattern of
  \<open>remove_urls\<close> and \<open>extract_urls\<close>, and the address pattern of \<open>remove_emails\<close> and
  \<open>extract_emails\<close>.
\<close>

datatype pattern = url_pattern | email_pattern

text \<open>
  What the source imports and does not define is a field of the record \<open>pylib\<close>: the
  Unicode tables behind \<open>str.lower\<close>, \<open>str.isupper\<close> and whitespace (\<open>str.split\<close> and the
  class \<open>\s\<close> of \<open>re\<close>), the matcher of \<open>re\<close> on the two compiled patterns, BeautifulSoup's
  \<open>get_text\<close>, NLTK's \<open>word_tokenize\<close>, Porter stemmer and English stop words, and the term
  ranking and term weighting of scikit-learn's \<open>TfidfVectorizer\<close>. The built-in string
  methods and \<open>re\<close> return for every string; the calls into BeautifulSoup and NLTK may
  raise, and the source catches nothing around them, so they return a sum.
\<close>

record pylib =
  str_lower :: "pystr \<Rightarrow> pystr"
  str_isupper :: "nat \<Rightarrow> bool"
  str_isspace :: "nat \<Rightarrow> bool"
  re_findall :: "pattern \<Rightarrow> pystr \<Rightarrow> pystr list"
  re_sub_empty :: "pattern \<Rightarrow> pystr \<Rightarrow> pystr"
  bs4_get_text :: "pystr \<Rightarrow> py_error + pystr"
  word_tokenize :: "pystr \<Rightarrow> py_error + pystr list"
  porter_stem :: "pystr \<Rightarrow> py_error + pystr"
  nltk_stop_words :: "pystr list"
  tfidf_ranked_terms :: "pystr list \<Rightarrow> (pystr \<times> real) list"
  tfidf_weight :: "(pystr \<times> real) list \<Rightarrow> pystr \<Rightarrow> pystr \<Rightarrow> real"

section \<open>Built-in string operations\<close>

text \<open>
  \<open>s.split()\<close>: the maximal runs of non-whitespace characters, in order; no empty piece.
  The first argument is the whitespace test, the second the word read so far.
\<close>

fun split_acc :: "(nat \<Rightarrow> bool) \<Rightarrow> pystr \<Rightarrow> pystr \<Rightarrow> pystr list" where
  "split_acc sp w [] = (if w = [] then [] else [w])"
| "split_acc sp w (c # cs) =
     (if sp c then (if w = [] then split_acc sp [] cs else w # split_acc sp [] cs)
      else split_acc sp (w @ [c]) cs)"

definition str_split :: "pylib \<Rightarrow> pystr \<Rightarrow> pystr list" where
  "str_split L s = split_acc (str_isspace L) [] s"

text \<open>\<open>s.count(c)\<close> for a one-character \<open>c\<close>.\<close>

definition str_count :: "pystr \<Rightarrow> nat \<Rightarrow> nat" where
  "str_count s c = length (filter (\<lambda>x. x = c) s)"

text \<open>\<open>sub in s\<close>: \<open>sub\<close> occurs in \<open>s\<close> as a contiguous piece.\<close>

fun starts_with :: "pystr \<Rightarrow> pystr \<Rightarrow> bool" where
  "starts_with [] s = True"
| "starts_with (a # as) [] = False"
| "starts_with (a # as) (c # cs) = (a = c \<and> starts_with as cs)"

fun str_contains :: "pystr \<Rightarrow> pystr \<Rightarrow> bool" where
  "str_contains sub [] = (sub = [])"
| "str_contains sub (c # cs) = (starts_with sub (c # cs) \<or> str_contains sub cs)"

text \<open>\<open>' '.join(tokens)\<close>.\<close>

fun str_join :: "pystr list \<Rightarrow> pystr" where
  "str_join [] = []"
| "str_join [t] = t"
| "str_join (t # u # ts) = t @ 32 # str_join (u # ts)"

text \<open>
  \<open>re.split(r'[.!?]+', s)\<close>: the pieces between the maximal runs of the three sentence
  marks; the pieces before a leading run and after a trailing run are empty strings and
  are kept. The flag says that the previous character was a sentence mark.
\<close>

definition sentence_mark :: "nat \<Rightarrow> bool" where
  "sentence_mark c = (c = 46 \<or> c = 33 \<or> c = 63)"

fun re_split_acc :: "bool \<Rightarrow> pystr \<Rightarrow> pystr \<Rightarrow> pystr list" where
  "re_split_acc r w [] = [w]"
| "re_split_acc r w (c # cs) =
     (if sentence_mark c then (if r then re_split_acc True w cs else w # re_split_acc True [] cs)
      else re_split_acc False (w @ [c]) cs)"

definition re_split_sentences :: "pystr \<Rightarrow> pystr list" where
  "re_split_sentences s = re_split_acc False [] s"

text \<open>
  A list comprehension over a call that may raise: the first exception ends it.
\<close>

fun map_result :: "('a \<Rightarrow> py_error + 'b) \<Rightarrow> 'a list \<Rightarrow> py_error + 'b list" where
  "map_result f [] = Inr []"
| "map_result f (x # xs) =
     (case f x of
        Inl e \<Rightarrow> Inl e
      | Inr y \<Rightarrow> (case map_result f xs of Inl e \<Rightarrow> Inl e | Inr ys \<Rightarrow> Inr (y # ys)))"

section \<open>\<open>data_preprocessor.py\<close>: class \<open>EmailPreprocessor\<close>\<close>

definition remove_html_tags :: "pylib \<Rightarrow> pystr \<Rightarrow> py_error + pystr" where
  "remove_html_tags L t = (if t = [] then Inr [] else bs4_get_text L t)"

definition remove_urls :: "pylib \<Rightarrow> pystr \<Rightarrow> pystr" where
  "remove_urls L t = re_sub_empty L url_pattern t"

definition remove_emails :: "pylib \<Rightarrow> pystr \<Rightarrow> pystr" where
  "remove_emails L t = re_sub_empty L email_pattern t"

text \<open>
  \<open>re.sub(r'[^a-zA-Z\s]', '', text)\<close> keeps the ASCII letters and the whitespace
  characters and deletes every other character.
\<close>

definition ascii_letter :: "nat \<Rightarrow> bool" where
  "ascii_letter c = ((97 \<le> c \<and> c \<le> 122) \<or> (65 \<le> c \<and> c \<le> 90))"

definition remove_special_chars :: "pylib \<Rightarrow> pystr \<Rightarrow> pystr" where
  "remove_special_chars L t = filter (\<lambda>c. ascii_letter c \<or> str_isspace L c) t"

definition tokenize_and_clean :: "pylib \<Rightarrow> pystr \<Rightarrow> py_error + pystr list" where
  "tokenize_and_clean L t =
     (if t = [] then Inr []
      else case word_tokenize L (str_lower L t) of
             Inl e \<Rightarrow> Inl e
           | Inr tokens \<Rightarrow>
               map_result (porter_stem L)
                 (filter (\<lambda>token. token \<notin> set (nltk_stop_words L) \<and> length token > 2) tokens))"

definition preprocess_email :: "pylib \<Rightarrow> pystr \<Rightarrow> py_error + pystr" where
  "preprocess_email L email_text =
     (if email_text = [] then Inr []
      else case remove_html_tags L email_text of
             Inl e \<Rightarrow> Inl e
           | Inr t1 \<Rightarrow>
               (let t2 = remove_urls L t1;
                    t3 = remove_emails L t2;
                    t4 = remove_special_chars L t3
                in case tokenize_and_clean L t4 of
                     Inl e \<Rightarrow> Inl e
                   | Inr tokens \<Rightarrow> Inr (str_join tokens)))"

definition extract_urls :: "pylib \<Rightarrow> pystr \<Rightarrow> pystr list" where
  "extract_urls L t = (if t = [] then [] else re_findall L url_pattern t)"

definition extract_emails :: "pylib \<Rightarrow> pystr \<Rightarrow> pystr list" where
  "extract_emails L t = (if t = [] then [] else re_findall L email_pattern t)"

section \<open>\<open>feature_extractor.py\<close>: class \<open>FeatureExtractor\<close>\<close>

text \<open>
  The list assigned to \<open>self.suspicious_words\<close> in \<open>__init__\<close>, in the order of the source;
  nothing assigns the attribute again.
\<close>

definition suspicious_words :: "pystr list" where
  "suspicious_words = map lit
     [''urgent'', ''immediate'', ''act now'', ''limited time'', ''expires'',
      ''click here'', ''click now'', ''verify'', ''confirm'', ''update'',
      ''suspend'', ''suspended'', ''account'', ''security'', ''alert'',
      ''warning'', ''congratulations'', ''winner'', ''prize'', ''lottery'',
      ''free'', ''bonus'', ''offer'', ''deal'', ''discount'', ''save'',
      ''money'', ''cash'', ''credit'', ''loan'', ''debt'', ''investment'',
      ''guarantee'', ''risk-free'', ''no obligation'', ''act fast'',
      [CHR ''d'', CHR ''o'', CHR ''n'', CHR 0x27, CHR ''t'', CHR '' '',
       CHR ''d'', CHR ''e'', CHR ''l'', CHR ''a'', CHR ''y''],
      ''hurry'', ''rush'', ''now'', ''today only'',
      ''limited offer'', ''exclusive'', ''special'', ''amazing'',
      ''incredible'', ''unbelievable'', ''fantastic'', ''wonderful'']"

text \<open>
  The feature vectors are numpy arrays of 64-bit floats; their entries are read as real
  numbers. \<open>np.zeros(n)\<close> is \<open>replicate n 0\<close>.
\<close>

definition suspicious_count :: "pylib \<Rightarrow> pystr \<Rightarrow> nat" where
  "suspicious_count L email_text =
     length (filter (\<lambda>word. str_contains (str_lower L word) (str_lower L email_text))
               suspicious_words)"

definition count_upper :: "pylib \<Rightarrow> pystr \<Rightarrow> nat" where
  "count_upper L email_text = length (filter (str_isupper L) email_text)"

definition extract_basic_features :: "pylib \<Rightarrow> pystr \<Rightarrow> real list" where
  "extract_basic_features L email_text =
     (if email_text = [] then replicate 8 0
      else
        let text_length = length email_text;
            word_count = length (str_split L email_text);
            char_count = length email_text;
            url_count = length (extract_urls L email_text);
            email_count = length (extract_emails L email_text);
            uppercase_ratio = real (count_upper L email_text) / real (max (length email_text) 1);
            exclamation_count = str_count email_text 33
        in [real text_length, real word_count, real char_count, real url_count,
            real email_count, real (suspicious_count L email_text), uppercase_ratio,
            real exclamation_count])"

text \<open>\<open>np.mean\<close> of a list of lengths; the source calls it on a non-empty list only.\<close>

definition np_mean :: "nat list \<Rightarrow> real" where
  "np_mean xs = real (sum_list xs) / real (length xs)"

definition extract_advanced_features :: "pylib \<Rightarrow> pystr \<Rightarrow> real list" where
  "extract_advanced_features L email_text =
     (if email_text = [] then replicate 5 0
      else
        let words = str_split L email_text;
            avg_word_length = (if words \<noteq> [] then np_mean (map length words) else 0);
            sentence_count = length (re_split_sentences email_text);
            avg_sentence_length = real (length words) / real (max sentence_count 1);
            question_count = str_count email_text 63;
            capital_count = count_upper L email_text
        in [avg_word_length, real sentence_count, avg_sentence_length,
            real question_count, real capital_count])"

text \<open>
  Modelled from the spec: the \<open>LexicalVectorizer\<close> of section 4.4, which is scikit-learn's
  \<open>TfidfVectorizer\<close> and is not under \<open>src/\<close>. A vectorizer is unfitted until \<open>fit\<close> has
  built its vocabulary; \<open>fit\<close> keeps at most \<open>max_features\<close> terms (unigrams and bigrams
  without the English stop words) of the library's ranking of the corpus, each with the
  weight it learned for it, and scikit-learn raises \<open>ValueError\<close> when no term is left;
  \<open>transform\<close> before \<open>fit\<close> is a \<open>NotFittedError\<close>, and after \<open>fit\<close> it gives one weight
  for each term of the vocabulary, in the order of the vocabulary.
  \<open>max_features\<close> is the argument \<open>FeatureExtractor.__init__\<close> passes.
\<close>

datatype tfidf_vectorizer = Unfitted | Fitted "(pystr \<times> real) list"

definition max_features :: nat where
  "max_features = 1000"

definition tfidf_fit :: "pylib \<Rightarrow> pystr list \<Rightarrow> py_error + tfidf_vectorizer" where
  "tfidf_fit L docs =
     (let vocabulary = take max_features (tfidf_ranked_terms L docs)
      in if vocabulary = [] then Inl ValueError else Inr (Fitted vocabulary))"

definition tfidf_transform :: "pylib \<Rightarrow> tfidf_vectorizer \<Rightarrow> pystr \<Rightarrow> py_error + real list" where
  "tfidf_transform L v doc =
     (case v of
        Unfitted \<Rightarrow> Inl NotFittedError
      | Fitted vocabulary \<Rightarrow> Inr (map (\<lambda>(term, idf). tfidf_weight L vocabulary term doc) vocabulary))"

text \<open>
  A \<open>FeatureExtractor\<close> object: its preprocessor has no state of its own beyond the
  library, and its word list is the constant above, so the vectorizer is the one
  attribute that changes.
\<close>

record FeatureExtractor =
  tfidf_vectorizer :: tfidf_vectorizer

definition FeatureExtractor_init :: FeatureExtractor where
  "FeatureExtractor_init = \<lparr>tfidf_vectorizer = Unfitted\<rparr>"

definition fit_tfidf :: "pylib \<Rightarrow> FeatureExtractor \<Rightarrow> pystr list \<Rightarrow> py_error + FeatureExtractor" where
  "fit_tfidf L self email_texts =
     (case map_result (preprocess_email L) email_texts of
        Inl e \<Rightarrow> Inl e
      | Inr processed_texts \<Rightarrow>
          (case tfidf_fit L processed_texts of
             Inl e \<Rightarrow> Inl e
           | Inr v \<Rightarrow> Inr (self\<lparr>tfidf_vectorizer := v\<rparr>)))"

definition extract_tfidf_features :: "pylib \<Rightarrow> FeatureExtractor \<Rightarrow> pystr \<Rightarrow> py_error + real list" where
  "extract_tfidf_features L self email_text =
     (case preprocess_email L email_text of
        Inl e \<Rightarrow> Inl e
      | Inr processed_text \<Rightarrow> tfidf_transform L (tfidf_vectorizer self) processed_text)"

definition extract_all_features :: "pylib \<Rightarrow> FeatureExtractor \<Rightarrow> pystr \<Rightarrow> py_error + real list" where
  "extract_all_features L self email_text =
     (let basic_features = extract_basic_features L email_text;
          advanced_features = extract_advanced_features L email_text
      in case extract_tfidf_features L self email_text of
           Inl e \<Rightarrow> Inl e
         | Inr tfidf_features \<Rightarrow> Inr (basic_features @ advanced_features @ tfidf_features))"

section \<open>\<open>app.py\<close>: loading the model components\<close>

text \<open>
  The classifier and the scaler are scikit-learn objects; of each, the model keeps the
  number of features it was fitted on, which is the length of the vectors it accepts
  (for the scaler, the length of its fitted means and scales).
\<close>

record classifier =
  n_features_in :: nat

record StandardScaler =
  scaler_mean :: "real list"
  scaler_scale :: "real list"

text \<open>
  The three module-level globals of \<open>app.py\<close>, \<open>None\<close> until loaded, and the outcome of
  \<open>joblib.load\<close> on each of the three paths: the object pickled there, or the exception
  raised for a missing or unreadable file.
\<close>

record app_globals =
  model :: "classifier option"
  feature_extractor :: "FeatureExtractor option"
  scaler :: "StandardScaler option"

record model_files =
  phishing_model_pkl :: "py_error + classifier"
  feature_extractor_pkl :: "py_error + FeatureExtractor"
  scaler_pkl :: "py_error + StandardScaler"

text \<open>
  \<open>load_model_components\<close>: the three assignments happen in order inside one \<open>try\<close>, so a
  failing load leaves the earlier globals assigned; the result is the returned flag with
  the globals afterwards.
\<close>

definition load_model_components :: "model_files \<Rightarrow> app_globals \<Rightarrow> bool \<times> app_globals" where
  "load_model_components F g =
     (case phishing_model_pkl F of
        Inl e \<Rightarrow> (False, g)
      | Inr m \<Rightarrow>
          (let g1 = g\<lparr>model := Some m\<rparr>
           in case feature_extractor_pkl F of
                Inl e \<Rightarrow> (False, g1)
              | Inr fe \<Rightarrow>
                  (let g2 = g1\<lparr>feature_extractor := Some fe\<rparr>
                   in case scaler_pkl F of
                        Inl e \<Rightarrow> (False, g2)
                      | Inr sc \<Rightarrow> (True, g2\<lparr>scaler := Some sc\<rparr>))))"

text \<open>
  The feature-vector length each loaded component expects: the classifier and the scaler
  the length they were fitted on, the feature extractor the length it produces.
\<close>

definition extractor_length :: "FeatureExtractor \<Rightarrow> nat option" where
  "extractor_length fe =
     (case tfidf_vectorizer fe of Unfitted \<Rightarrow> None | Fitted vocabulary \<Rightarrow> Some (8 + 5 + length vocabulary))"

definition lengths_agree :: "classifier \<Rightarrow> FeatureExtractor \<Rightarrow> StandardScaler \<Rightarrow> bool" where
  "lengths_agree m fe sc =
     (extractor_length fe = Some (n_features_in m) \<and>
      length (scaler_mean sc) = n_features_in m \<and>
      length (scaler_scale sc) = n_features_in m)"

section \<open>The sentence count in the words of the specification\<close>

text \<open>
  The number of runs of sentence marks in a text, counted without splitting it: a run
  starts at every sentence mark whose predecessor is not one. Each character is paired
  with its predecessor; the first character is paired with the code 0, which is not a
  sentence mark.
\<close>

definition mark_run_count :: "pystr \<Rightarrow> nat" where
  "mark_run_count s =
     length (filter (\<lambda>(prev, c). sentence_mark c \<and> \<not> sentence_mark prev) (zip (0 # s) s))"

section \<open>A library instance for evaluation\<close>

text \<open>
  An instance of the library interface on which the definitions evaluate. Its tables are
  those of Python on ASCII text: the capital letters are \<open>A\<close> to \<open>Z\<close>, the whitespace
  characters are the codes 9 to 13, 28 to 31 and 32. It is meant for texts without
  markup, URLs and addresses, where \<open>get_text\<close> and the two substitutions change nothing
  and \<open>findall\<close> finds nothing; it tokenizes at whitespace, its stemmer leaves a word as
  it is, and it weighs a term 1 in a document that has it as a word and 0 otherwise.
\<close>

definition ascii_isspace :: "nat \<Rightarrow> bool" where
  "ascii_isspace c = ((9 \<le> c \<and> c \<le> 13) \<or> (28 \<le> c \<and> c \<le> 32))"

definition ascii_isupper :: "nat \<Rightarrow> bool" where
  "ascii_isupper c = (65 \<le> c \<and> c \<le> 90)"

definition ascii_lower :: "pystr \<Rightarrow> pystr" where
  "ascii_lower s = map (\<lambda>c. if ascii_isupper c then c + 32 else c) s"

definition ascii_lib :: pylib where
  "ascii_lib =
     \<lparr>str_lower = ascii_lower,
      str_isupper = ascii_isupper,
      str_isspace = ascii_isspace,
      re_findall = (\<lambda>p t. []),
      re_sub_empty = (\<lambda>p t. t),
      bs4_get_text = (\<lambda>t. Inr t),
      word_tokenize = (\<lambda>t. Inr (split_acc ascii_isspace [] t)),
      porter_stem = (\<lambda>t. Inr t),
      nltk_stop_words = map lit [''the'', ''and'', ''you'', ''your'', ''for''],
      tfidf_ranked_terms =
        (\<lambda>docs. map (\<lambda>w. (w, 1)) (remdups (concat (map (split_acc ascii_isspace []) docs)))),
      tfidf_weight =
        (\<lambda>vocabulary term doc. if term \<in> set (split_acc ascii_isspace [] doc) then 1 else 0)\<rparr>"

text \<open>
  The same instance with BeautifulSoup's answer to the text \<open><![x]>\<close>: a marked section
  with an unknown keyword, which the parser \<open>html.parser\<close> rejects, so that constructing
  the soup raises \<open>ParserRejectedMarkup\<close>.
\<close>

definition html_parser_lib :: pylib where
  "html_parser_lib =
     ascii_lib\<lparr>bs4_get_text :=
       (\<lambda>t. if t = lit ''<![x]>'' then Inl (Exception ''ParserRejectedMarkup'') else Inr t)\<rparr>"

section \<open>Properties of the string operations\<close>

lemma length_re_split_acc:
  "r = sentence_mark p \<Longrightarrow> length (re_split_acc r w s) =
     Suc (length (filter (\<lambda>(prev, c). sentence_mark c \<and> \<not> sentence_mark prev) (zip (p # s) s)))"
proof (induction s arbitrary: r p w)
  case Nil
  then show ?case by simp
next
  case (Cons c cs)
  show ?case
  proof (cases "sentence_mark c")
    case True
    have ih: "length (re_split_acc True v cs) =
        Suc (length (filter (\<lambda>(prev, c). sentence_mark c \<and> \<not> sentence_mark prev) (zip (c # cs) cs)))" for v
      using Cons.IH [of True c v] True by simp
    show ?thesis using True Cons.prems by (simp add: ih)
  next
    case False
    have ih: "length (re_split_acc False v cs) =
        Suc (length (filter (\<lambda>(prev, c). sentence_mark c \<and> \<not> sentence_mark prev) (zip (c # cs) cs)))" for v
      using Cons.IH [of False c v] False by simp
    show ?thesis using False by (simp add: ih)
  qed
qed

lemma not_mark_zero: "\<not> sentence_mark 0"
  by (simp add: sentence_mark_def)

lemma length_re_split_sentences: "length (re_split_sentences s) = Suc (mark_run_count s)"
  using length_re_split_acc [of False 0 "[]" s]
  by (simp add: re_split_sentences_def mark_run_count_def not_mark_zero)

lemma concat_re_split_acc:
  "concat (re_split_acc r w s) = w @ filter (\<lambda>c. \<not> sentence_mark c) s"
  by (induction s arbitrary: r w) auto

lemma concat_re_split_sentences:
  "concat (re_split_sentences s) = filter (\<lambda>c. \<not> sentence_mark c) s"
  by (simp add: re_split_sentences_def concat_re_split_acc)

lemma concat_split_acc: "concat (split_acc sp w s) = w @ filter (\<lambda>c. \<not> sp c) s"
  by (induction s arbitrary: w) auto

lemma split_acc_no_empty: "[] \<notin> set (split_acc sp w s)"
  by (induction s arbitrary: w) auto

lemma concat_str_split: "concat (str_split L s) = filter (\<lambda>c. \<not> str_isspace L c) s"
  by (simp add: str_split_def concat_split_acc)

lemma str_split_no_empty: "[] \<notin> set (str_split L s)"
  by (simp add: str_split_def split_acc_no_empty)

lemma starts_with_iff: "starts_with w s \<longleftrightarrow> (\<exists>b. s = w @ b)"
  by (induction w s rule: starts_with.induct) auto

lemma str_contains_iff: "str_contains w s \<longleftrightarrow> (\<exists>a b. s = a @ w @ b)"
proof (induction s)
  case Nil
  show ?case by auto
next
  case (Cons c cs)
  show ?case
  proof
    assume "str_contains w (c # cs)"
    then consider "starts_with w (c # cs)" | "str_contains w cs" by auto
    then show "\<exists>a b. c # cs = a @ w @ b"
    proof cases
      case 1
      then obtain b where "c # cs = w @ b" using starts_with_iff by blast
      then have "c # cs = [] @ w @ b" by simp
      then show ?thesis by blast
    next
      case 2
      then obtain a b where "cs = a @ w @ b" using Cons.IH by blast
      then have "c # cs = (c # a) @ w @ b" by simp
      then show ?thesis by blast
    qed
  next
    assume "\<exists>a b. c # cs = a @ w @ b"
    then obtain a b where ab: "c # cs = a @ w @ b" by blast
    show "str_contains w (c # cs)"
    proof (cases a)
      case Nil
      with ab have "starts_with w (c # cs)" using starts_with_iff by auto
      then show ?thesis by simp
    next
      case (Cons x a')
      with ab have "cs = a' @ w @ b" by simp
      then have "str_contains w cs" using Cons.IH by blast
      then show ?thesis by simp
    qed
  qed
qed

lemma str_join_decompose: "w \<in> set ws \<Longrightarrow> \<exists>a b. str_join ws = a @ w @ b"
proof (induction ws rule: str_join.induct)
  case 1
  then show ?case by simp
next
  case (2 t)
  then have "str_join [t] = [] @ w @ []" by simp
  then show ?case by blast
next
  case (3 t u ts)
  show ?case
  proof (cases "w = t")
    case True
    then have "str_join (t # u # ts) = [] @ w @ (32 # str_join (u # ts))" by simp
    then show ?thesis by blast
  next
    case False
    with 3 obtain a b where "str_join (u # ts) = a @ w @ b" by auto
    then have "str_join (t # u # ts) = (t @ 32 # a) @ w @ b" by simp
    then show ?thesis by blast
  qed
qed

lemma str_contains_join: "w \<in> set ws \<Longrightarrow> str_contains w (str_join ws)"
  using str_join_decompose str_contains_iff by blast

section \<open>The feature vector\<close>

lemma length_basic: "length (extract_basic_features L t) = 8"
  by (simp add: extract_basic_features_def Let_def)

lemma length_advanced: "length (extract_advanced_features L t) = 5"
  by (simp add: extract_advanced_features_def Let_def)

lemma tfidf_fit_Fitted:
  "tfidf_fit L docs = Inr v \<Longrightarrow> \<exists>vocabulary. v = Fitted vocabulary \<and> length vocabulary \<le> 1000"
  by (auto simp: tfidf_fit_def Let_def max_features_def split: if_splits)

lemma fit_tfidf_Fitted:
  "fit_tfidf L fe0 corpus = Inr self \<Longrightarrow>
     \<exists>vocabulary. tfidf_vectorizer self = Fitted vocabulary \<and> length vocabulary \<le> 1000"
  by (auto simp: fit_tfidf_def split: sum.splits dest: tfidf_fit_Fitted)

lemma fit_click:
  "fit_tfidf ascii_lib FeatureExtractor_init [lit ''click''] =
     Inr \<lparr>tfidf_vectorizer = Fitted [(lit ''click'', 1)]\<rparr>"
  by (simp add: fit_tfidf_def preprocess_email_def remove_html_tags_def remove_urls_def
      remove_emails_def remove_special_chars_def tokenize_and_clean_def tfidf_fit_def
      FeatureExtractor_init_def ascii_lib_def ascii_lower_def ascii_isupper_def
      ascii_isspace_def ascii_letter_def max_features_def lit_def Let_def)

lemma fit_click_parser:
  "fit_tfidf html_parser_lib FeatureExtractor_init [lit ''click''] =
     Inr \<lparr>tfidf_vectorizer = Fitted [(lit ''click'', 1)]\<rparr>"
  by (simp add: fit_tfidf_def preprocess_email_def remove_html_tags_def remove_urls_def
      remove_emails_def remove_special_chars_def tokenize_and_clean_def tfidf_fit_def
      FeatureExtractor_init_def html_parser_lib_def ascii_lib_def ascii_lower_def
      ascii_isupper_def ascii_isspace_def ascii_letter_def max_features_def lit_def Let_def)

lemma preprocess_rejected:
  "preprocess_email html_parser_lib (lit ''<![x]>'') = Inl (Exception ''ParserRejectedMarkup'')"
  by (simp add: preprocess_email_def remove_html_tags_def html_parser_lib_def lit_def)

lemma preprocess_example: "preprocess_email ascii_lib (lit ''Click!'') = Inr (lit ''click'')"
  by (simp add: preprocess_email_def remove_html_tags_def remove_urls_def
      remove_emails_def remove_special_chars_def tokenize_and_clean_def
      ascii_lib_def ascii_lower_def ascii_isupper_def
      ascii_isspace_def ascii_letter_def lit_def Let_def)

lemma basic_click:
  "extract_basic_features ascii_lib (lit ''Click!'') = [6, 1, 6, 0, 0, 0, 1 / 6, 1]"
  by (simp add: extract_basic_features_def suspicious_count_def suspicious_words_def
      extract_urls_def extract_emails_def str_split_def str_count_def count_upper_def
      ascii_lib_def ascii_lower_def ascii_isupper_def ascii_isspace_def lit_def Let_def)

lemma advanced_click:
  "extract_advanced_features ascii_lib (lit ''Click!'') = [6, 2, 1 / 2, 0, 1]"
  by (simp add: extract_advanced_features_def np_mean_def re_split_sentences_def
      sentence_mark_def str_split_def str_count_def count_upper_def
      ascii_lib_def ascii_isupper_def ascii_isspace_def lit_def Let_def)

text \<open>
  C1, as the source has it. Once \<open>fit_tfidf\<close> has fitted the vectorizer, its vocabulary
  has V entries, at most 1000, and for every text the basic features have 8 entries and
  the advanced features 5. For every text whose preprocessing returns the sanitized
  text \<open>p\<close>, \<open>extract_all_features\<close> returns the basic features of the raw text, then
  its advanced features, then the vectorizer's transform of \<open>p\<close>, which is the weight of
  each vocabulary term in \<open>p\<close>, in that order: a vector of the length 8 + 5 + V. For a
  text whose preprocessing raises, \<open>extract_all_features\<close> raises that exception and
  returns no vector.
\<close>

theorem extract_all_features_layout:
  assumes "fit_tfidf L fe0 corpus = Inr self"
  shows "\<exists>vocabulary.
           tfidf_vectorizer self = Fitted vocabulary \<and> length vocabulary \<le> 1000 \<and>
           length (extract_basic_features L t) = 8 \<and>
           length (extract_advanced_features L t) = 5 \<and>
           (\<forall>p. preprocess_email L t = Inr p \<longrightarrow>
              tfidf_transform L (tfidf_vectorizer self) p =
                Inr (map (\<lambda>(term, idf). tfidf_weight L vocabulary term p) vocabulary) \<and>
              extract_tfidf_features L self t =
                Inr (map (\<lambda>(term, idf). tfidf_weight L vocabulary term p) vocabulary) \<and>
              extract_all_features L self t =
                Inr (extract_basic_features L t @ extract_advanced_features L t @
                     map (\<lambda>(term, idf). tfidf_weight L vocabulary term p) vocabulary) \<and>
              length (extract_basic_features L t @ extract_advanced_features L t @
                     map (\<lambda>(term, idf). tfidf_weight L vocabulary term p) vocabulary) =
                8 + 5 + length vocabulary) \<and>
           (\<forall>e. preprocess_email L t = Inl e \<longrightarrow>
              extract_tfidf_features L self t = Inl e \<and> extract_all_features L self t = Inl e)"
proof -
  from assms obtain vocabulary where
    v: "tfidf_vectorizer self = Fitted vocabulary" and le: "length vocabulary \<le> 1000"
    using fit_tfidf_Fitted by blast
  have ok: "tfidf_transform L (tfidf_vectorizer self) p =
        Inr (map (\<lambda>(term, idf). tfidf_weight L vocabulary term p) vocabulary) \<and>
      extract_tfidf_features L self t =
        Inr (map (\<lambda>(term, idf). tfidf_weight L vocabulary term p) vocabulary) \<and>
      extract_all_features L self t =
        Inr (extract_basic_features L t @ extract_advanced_features L t @
             map (\<lambda>(term, idf). tfidf_weight L vocabulary term p) vocabulary) \<and>
      length (extract_basic_features L t @ extract_advanced_features L t @
             map (\<lambda>(term, idf). tfidf_weight L vocabulary term p) vocabulary) =
        8 + 5 + length vocabulary"
    if "preprocess_email L t = Inr p" for p
    using that v length_basic [of L t] length_advanced [of L t]
    by (simp add: extract_all_features_def extract_tfidf_features_def tfidf_transform_def Let_def)
  have err: "extract_tfidf_features L self t = Inl e \<and> extract_all_features L self t = Inl e"
    if "preprocess_email L t = Inl e" for e
    using that by (simp add: extract_all_features_def extract_tfidf_features_def Let_def)
  show ?thesis
    using v le ok err length_basic [of L t] length_advanced [of L t] by blast
qed

theorem extract_all_features_layout_witness:
  "fit_tfidf ascii_lib FeatureExtractor_init [lit ''click''] =
     Inr \<lparr>tfidf_vectorizer = Fitted [(lit ''click'', 1)]\<rparr> \<and>
   preprocess_email ascii_lib (lit ''Click!'') = Inr (lit ''click'') \<and>
   extract_all_features ascii_lib \<lparr>tfidf_vectorizer = Fitted [(lit ''click'', 1)]\<rparr>
       (lit ''Click!'') =
     Inr [6, 1, 6, 0, 0, 0, 1 / 6, 1, 6, 2, 1 / 2, 0, 1, 1]"
proof -
  from extract_all_features_layout [OF fit_click, of "lit ''Click!''"] obtain vocabulary where
    v: "tfidf_vectorizer \<lparr>tfidf_vectorizer = Fitted [(lit ''click'', 1)]\<rparr> = Fitted vocabulary"
    and h: "\<forall>p. preprocess_email ascii_lib (lit ''Click!'') = Inr p \<longrightarrow>
      extract_all_features ascii_lib \<lparr>tfidf_vectorizer = Fitted [(lit ''click'', 1)]\<rparr>
          (lit ''Click!'') =
        Inr (extract_basic_features ascii_lib (lit ''Click!'') @
             extract_advanced_features ascii_lib (lit ''Click!'') @
             map (\<lambda>(term, idf). tfidf_weight ascii_lib vocabulary term p) vocabulary)"
    by blast
  from v have voc: "vocabulary = [(lit ''click'', 1)]" by simp
  have w: "tfidf_weight ascii_lib [(lit ''click'', 1)] (lit ''click'') (lit ''click'') = 1"
    by (simp add: ascii_lib_def ascii_isspace_def lit_def)
  from h preprocess_example voc
  have "extract_all_features ascii_lib \<lparr>tfidf_vectorizer = Fitted [(lit ''click'', 1)]\<rparr>
          (lit ''Click!'') =
        Inr (extract_basic_features ascii_lib (lit ''Click!'') @
             extract_advanced_features ascii_lib (lit ''Click!'') @
             [tfidf_weight ascii_lib [(lit ''click'', 1)] (lit ''click'') (lit ''click'')])"
    by simp
  then show ?thesis
    using fit_click preprocess_example by (simp add: basic_click advanced_click w)
qed

text \<open>
  The extractor fitted on the one-text corpus \<open>click\<close> returns no vector for the text
  \<open><![x]>\<close>: the parser rejects it, and \<open>extract_all_features\<close> raises.
\<close>

theorem extract_all_features_raises_on_rejected_markup:
  "fit_tfidf html_parser_lib FeatureExtractor_init [lit ''click''] =
     Inr \<lparr>tfidf_vectorizer = Fitted [(lit ''click'', 1)]\<rparr> \<and>
   extract_all_features html_parser_lib \<lparr>tfidf_vectorizer = Fitted [(lit ''click'', 1)]\<rparr>
       (lit ''<![x]>'') = Inl (Exception ''ParserRejectedMarkup'')"
  using fit_click_parser preprocess_rejected
  by (simp add: extract_all_features_def extract_tfidf_features_def Let_def)



text \<open>
  C4. On the empty text the basic features are eight zeros and the advanced features
  are five zeros, and the sanitizer (\<open>preprocess_email\<close> and each of its steps with a
  guard, \<open>remove_html_tags\<close> and \<open>tokenize_and_clean\<close>) returns the empty result; none of
  them raises, whatever the library does.
\<close>

theorem empty_text_zero_features:
  "extract_basic_features L [] = [0, 0, 0, 0, 0, 0, 0, 0] \<and>
   extract_advanced_features L [] = [0, 0, 0, 0, 0] \<and>
   preprocess_email L [] = Inr [] \<and>
   remove_html_tags L [] = Inr [] \<and>
   tokenize_and_clean L [] = Inr []"
  by (simp add: extract_basic_features_def extract_advanced_features_def preprocess_email_def
      remove_html_tags_def tokenize_and_clean_def numeral_eq_Suc)

theorem empty_text_zero_features_witness:
  "extract_basic_features ascii_lib (lit []) = [0, 0, 0, 0, 0, 0, 0, 0] \<and>
   extract_advanced_features ascii_lib (lit []) = [0, 0, 0, 0, 0] \<and>
   preprocess_email ascii_lib (lit []) = Inr (lit [])"
  using empty_text_zero_features [of ascii_lib] by (simp add: lit_def)

section \<open>Sanitizing and tokenizing\<close>







section \<open>Statistical features\<close>

text \<open>
  C8. For a non-empty text, the second advanced feature is the number of pieces that
  splitting at the runs of \<open>.\<close>, \<open>!\<close> and \<open>?\<close> gives: one more than the number of such
  runs, so at least 1, the pieces holding the other characters of the text in order. The
  third advanced feature is the number of whitespace-separated words (the non-empty
  pieces that hold the non-whitespace characters of the text in order) divided by the
  larger of that number of pieces and 1.
\<close>

theorem advanced_sentence_features:
  assumes "email_text \<noteq> []"
  shows "extract_advanced_features L email_text ! 1 =
           real (length (re_split_sentences email_text)) \<and>
         length (re_split_sentences email_text) = Suc (mark_run_count email_text) \<and>
         concat (re_split_sentences email_text) =
           filter (\<lambda>c. \<not> sentence_mark c) email_text \<and>
         1 \<le> length (re_split_sentences email_text) \<and>
         extract_advanced_features L email_text ! 2 =
           real (length (str_split L email_text)) /
           real (max (length (re_split_sentences email_text)) 1) \<and>
         concat (str_split L email_text) = filter (\<lambda>c. \<not> str_isspace L c) email_text \<and>
         [] \<notin> set (str_split L email_text)"
  using assms
  by (simp add: extract_advanced_features_def Let_def length_re_split_sentences
      concat_re_split_sentences concat_str_split str_split_no_empty)

theorem advanced_sentence_features_witness:
  "lit ''Hi there. Go!?'' \<noteq> [] \<and>
   re_split_sentences (lit ''Hi there. Go!?'') = [lit ''Hi there'', lit '' Go'', []] \<and>
   mark_run_count (lit ''Hi there. Go!?'') = 2 \<and>
   str_split ascii_lib (lit ''Hi there. Go!?'') = [lit ''Hi'', lit ''there.'', lit ''Go!?''] \<and>
   extract_advanced_features ascii_lib (lit ''Hi there. Go!?'') ! 1 = 3 \<and>
   extract_advanced_features ascii_lib (lit ''Hi there. Go!?'') ! 2 = 1"
proof -
  have ne: "lit ''Hi there. Go!?'' \<noteq> []" by (simp add: lit_def)
  have sp: "re_split_sentences (lit ''Hi there. Go!?'') = [lit ''Hi there'', lit '' Go'', []]"
    by (simp add: re_split_sentences_def sentence_mark_def lit_def)
  have ws: "str_split ascii_lib (lit ''Hi there. Go!?'') =
      [lit ''Hi'', lit ''there.'', lit ''Go!?'']"
    by (simp add: str_split_def ascii_lib_def ascii_isspace_def lit_def)
  from advanced_sentence_features [OF ne, of ascii_lib] ne sp ws show ?thesis by simp
qed

text \<open>
  C9. For every text, the third basic feature (the character count) equals the first
  (the text length), and both are the number of characters of the raw text.
\<close>

theorem char_count_is_text_length:
  "extract_basic_features L t ! 2 = extract_basic_features L t ! 0 \<and>
   extract_basic_features L t ! 0 = real (length t)"
  by (simp add: extract_basic_features_def Let_def)

theorem char_count_is_text_length_witness:
  "extract_basic_features ascii_lib (lit ''Click!'') ! 2 = 6 \<and>
   extract_basic_features ascii_lib (lit ''Click!'') ! 0 = 6"
  using char_count_is_text_length [of ascii_lib "lit ''Click!''"] by (simp add: lit_def)

section \<open>The suspicious-word count\<close>

lemma length_suspicious_words: "length suspicious_words = 49"
  by (simp add: suspicious_words_def)

lemma distinct_suspicious_words: "distinct suspicious_words"
  unfolding suspicious_words_def by (simp add: lit_def)

lemma suspicious_count_le: "suspicious_count L t \<le> 49"
  unfolding suspicious_count_def
  using length_filter_le [of _ suspicious_words] by (simp add: length_suspicious_words)

lemma suspicious_count_card:
  "suspicious_count L t =
     card {w \<in> set suspicious_words. str_contains (str_lower L w) (str_lower L t)}"
  unfolding suspicious_count_def
  using distinct_suspicious_words
  by (metis distinct_card distinct_filter set_filter)

lemma lower_suspicious_words: "\<forall>w \<in> set suspicious_words. ascii_lower w = w"
  by (simp add: lit_def suspicious_words_def ascii_lower_def ascii_isupper_def)

lemma ascii_lower_append: "ascii_lower (a @ b) = ascii_lower a @ ascii_lower b"
  by (simp add: ascii_lower_def)

lemma ascii_lower_space: "ascii_lower (32 # s) = 32 # ascii_lower s"
  by (simp add: ascii_lower_def ascii_isupper_def)

lemma ascii_lower_join:
  "\<forall>w \<in> set ws. ascii_lower w = w \<Longrightarrow> ascii_lower (str_join ws) = str_join ws"
  by (induction ws rule: str_join.induct)
    (simp_all add: ascii_lower_append ascii_lower_space, simp add: ascii_lower_def)

lemma str_lower_ascii_lib: "str_lower ascii_lib = ascii_lower"
  by (simp add: ascii_lib_def)

lemma all_words_text:
  "lit (''urgent immediate act now limited time expires click here click now verify confirm update suspend suspended account security alert warning congratulations winner prize lottery free bonus offer deal discount save money cash credit loan debt investment guarantee risk-free no obligation act fast don''
        @ [CHR 0x27] @ ''t delay hurry rush now today only limited offer exclusive special amazing incredible unbelievable fantastic wonderful'')
     = str_join suspicious_words"
  by (simp add: lit_def suspicious_words_def)

text \<open>
  C10, as the source has it. The list of suspicious words has 49 entries, all different.
  For every text the sixth basic feature is a natural number of at most 49; for a
  non-empty text it is the number of entries of the list that occur in the lower-cased
  text, each entry counted once however often it occurs.
\<close>

theorem suspicious_count_bounded:
  "length suspicious_words = 49 \<and>
   (\<exists>n. extract_basic_features L t ! 5 = real n \<and> n \<le> 49 \<and>
      (t \<noteq> [] \<longrightarrow>
         n = card {w \<in> set suspicious_words. str_contains (str_lower L w) (str_lower L t)}))"
proof (cases "t = []")
  case True
  then have "extract_basic_features L t ! 5 = real 0"
    by (simp add: extract_basic_features_def numeral_eq_Suc)
  then show ?thesis using True length_suspicious_words by blast
next
  case False
  then have "extract_basic_features L t ! 5 = real (suspicious_count L t)"
    by (simp add: extract_basic_features_def Let_def)
  then show ?thesis
    using suspicious_count_le [of L t] suspicious_count_card [of L t] length_suspicious_words
    by blast
qed

theorem suspicious_count_bounded_witness:
  "lit ''Act now now now'' \<noteq> [] \<and>
   extract_basic_features ascii_lib (lit ''Act now now now'') ! 5 = 2 \<and>
   card {w \<in> set suspicious_words.
     str_contains (str_lower ascii_lib w) (str_lower ascii_lib (lit ''Act now now now''))} = 2"
proof -
  have ne: "lit ''Act now now now'' \<noteq> []" by (simp add: lit_def)
  have v: "extract_basic_features ascii_lib (lit ''Act now now now'') ! 5 = 2"
    by (simp add: extract_basic_features_def suspicious_count_def suspicious_words_def
        ascii_lib_def ascii_lower_def ascii_isupper_def lit_def Let_def)
  from suspicious_count_bounded [of ascii_lib "lit ''Act now now now''"] ne v
  show ?thesis by auto
qed

text \<open>
  The text made of all 49 entries, separated by blanks, has the count 49, which is above
  48.
\<close>

theorem suspicious_count_reaches_49:
  "extract_basic_features ascii_lib
     (lit (''urgent immediate act now limited time expires click here click now verify confirm update suspend suspended account security alert warning congratulations winner prize lottery free bonus offer deal discount save money cash credit loan debt investment guarantee risk-free no obligation act fast don''
        @ [CHR 0x27] @ ''t delay hurry rush now today only limited offer exclusive special amazing incredible unbelievable fantastic wonderful'')) ! 5 = 49 \<and>
   \<not> extract_basic_features ascii_lib
     (lit (''urgent immediate act now limited time expires click here click now verify confirm update suspend suspended account security alert warning congratulations winner prize lottery free bonus offer deal discount save money cash credit loan debt investment guarantee risk-free no obligation act fast don''
        @ [CHR 0x27] @ ''t delay hurry rush now today only limited offer exclusive special amazing incredible unbelievable fantastic wonderful'')) ! 5 \<le> 48"
proof -
  let ?T = "str_join suspicious_words"
  have ne: "?T \<noteq> []" by (simp add: suspicious_words_def lit_def)
  have "\<forall>w \<in> set suspicious_words. str_contains (ascii_lower w) (ascii_lower ?T)"
    using lower_suspicious_words ascii_lower_join [of suspicious_words]
      str_contains_join [of _ suspicious_words]
    by simp
  then have "filter (\<lambda>w. str_contains (ascii_lower w) (ascii_lower ?T)) suspicious_words =
      suspicious_words"
    by simp
  then have "suspicious_count ascii_lib ?T = 49"
    by (simp add: suspicious_count_def str_lower_ascii_lib length_suspicious_words)
  then have "extract_basic_features ascii_lib ?T ! 5 = 49"
    using ne by (simp add: extract_basic_features_def Let_def)
  then have a: "extract_basic_features ascii_lib
     (lit (''urgent immediate act now limited time expires click here click now verify confirm update suspend suspended account security alert warning congratulations winner prize lottery free bonus offer deal discount save money cash credit loan debt investment guarantee risk-free no obligation act fast don''
        @ [CHR 0x27] @ ''t delay hurry rush now today only limited offer exclusive special amazing incredible unbelievable fantastic wonderful'')) ! 5 = 49"
    by (simp only: all_words_text)
  have b: "\<not> extract_basic_features ascii_lib
     (lit (''urgent immediate act now limited time expires click here click now verify confirm update suspend suspended account security alert warning congratulations winner prize lottery free bonus offer deal discount save money cash credit loan debt investment guarantee risk-free no obligation act fast don''
        @ [CHR 0x27] @ ''t delay hurry rush now today only limited offer exclusive special amazing incredible unbelievable fantastic wonderful'')) ! 5 \<le> 48"
    unfolding a by simp
  from a b show ?thesis by (rule conjI)
qed

section \<open>Loading the model components\<close>

text \<open>
  C2, as the source has it. \<open>load_model_components\<close> compares no lengths: it returns
  \<open>True\<close> exactly when all three loads return, whatever feature-vector lengths the three
  components expect, and then the globals hold the three loaded components as loaded.
\<close>

theorem load_model_components_checks_no_length:
  "(fst (load_model_components F g) \<longleftrightarrow>
      (\<exists>m fe sc. phishing_model_pkl F = Inr m \<and> feature_extractor_pkl F = Inr fe \<and>
                  scaler_pkl F = Inr sc)) \<and>
   (\<forall>m fe sc. phishing_model_pkl F = Inr m \<and> feature_extractor_pkl F = Inr fe \<and>
               scaler_pkl F = Inr sc \<longrightarrow>
        load_model_components F g =
          (True, g\<lparr>model := Some m, feature_extractor := Some fe, scaler := Some sc\<rparr>))"
  by (auto simp: load_model_components_def Let_def split: sum.splits)

theorem load_model_components_checks_no_length_witness:
  "phishing_model_pkl
     \<lparr>phishing_model_pkl = Inr \<lparr>n_features_in = 15\<rparr>,
      feature_extractor_pkl =
        Inr \<lparr>tfidf_vectorizer = Fitted [(lit ''click'', 1), (lit ''now'', 1)]\<rparr>,
      scaler_pkl = Inr \<lparr>scaler_mean = replicate 15 0, scaler_scale = replicate 15 1\<rparr>\<rparr>
     = Inr \<lparr>n_features_in = 15\<rparr> \<and>
   fst (load_model_components
     \<lparr>phishing_model_pkl = Inr \<lparr>n_features_in = 15\<rparr>,
      feature_extractor_pkl =
        Inr \<lparr>tfidf_vectorizer = Fitted [(lit ''click'', 1), (lit ''now'', 1)]\<rparr>,
      scaler_pkl = Inr \<lparr>scaler_mean = replicate 15 0, scaler_scale = replicate 15 1\<rparr>\<rparr>
     \<lparr>model = None, feature_extractor = None, scaler = None\<rparr>) \<and>
   \<not> fst (load_model_components
     \<lparr>phishing_model_pkl = Inr \<lparr>n_features_in = 15\<rparr>,
      feature_extractor_pkl = Inl (Exception ''No such file or directory''),
      scaler_pkl = Inr \<lparr>scaler_mean = replicate 15 0, scaler_scale = replicate 15 1\<rparr>\<rparr>
     \<lparr>model = None, feature_extractor = None, scaler = None\<rparr>)"
  using load_model_components_checks_no_length
      [of "\<lparr>phishing_model_pkl = Inr \<lparr>n_features_in = 15\<rparr>,
      feature_extractor_pkl =
        Inr \<lparr>tfidf_vectorizer = Fitted [(lit ''click'', 1), (lit ''now'', 1)]\<rparr>,
      scaler_pkl = Inr \<lparr>scaler_mean = replicate 15 0, scaler_scale = replicate 15 1\<rparr>\<rparr>"
      "\<lparr>model = None, feature_extractor = None, scaler = None\<rparr>"]
    load_model_components_checks_no_length
      [of "\<lparr>phishing_model_pkl = Inr \<lparr>n_features_in = 15\<rparr>,
      feature_extractor_pkl = Inl (Exception ''No such file or directory''),
      scaler_pkl = Inr \<lparr>scaler_mean = replicate 15 0, scaler_scale = replicate 15 1\<rparr>\<rparr>"
      "\<lparr>model = None, feature_extractor = None, scaler = None\<rparr>"]
  by simp

text \<open>
  A bundle whose classifier expects 20 features, whose feature extractor produces
  8 + 5 + 2 = 15 and whose scaler was fitted on 14 is loaded without an error.
\<close>

theorem load_model_components_accepts_mismatch:
  "\<not> lengths_agree \<lparr>n_features_in = 20\<rparr>
        \<lparr>tfidf_vectorizer = Fitted [(lit ''click'', 1), (lit ''now'', 1)]\<rparr>
        \<lparr>scaler_mean = replicate 14 0, scaler_scale = replicate 14 1\<rparr> \<and>
   load_model_components
     \<lparr>phishing_model_pkl = Inr \<lparr>n_features_in = 20\<rparr>,
      feature_extractor_pkl =
        Inr \<lparr>tfidf_vectorizer = Fitted [(lit ''click'', 1), (lit ''now'', 1)]\<rparr>,
      scaler_pkl = Inr \<lparr>scaler_mean = replicate 14 0, scaler_scale = replicate 14 1\<rparr>\<rparr>
     \<lparr>model = None, feature_extractor = None, scaler = None\<rparr> =
   (True,
    \<lparr>model = Some \<lparr>n_features_in = 20\<rparr>,
     feature_extractor =
       Some \<lparr>tfidf_vectorizer = Fitted [(lit ''click'', 1), (lit ''now'', 1)]\<rparr>,
     scaler = Some \<lparr>scaler_mean = replicate 14 0, scaler_scale = replicate 14 1\<rparr>\<rparr>)"
  by (simp add: lengths_agree_def extractor_length_def load_model_components_def Let_def)

end
